theory Spec2Isabelle
  imports Complex_Main "HOL-Library.Sublist"
begin

section \<open>Strings, as the capture tool reads them\<close>

text \<open>
  A captured line is a Python \<open>str\<close>. It is modelled as a \<open>string\<close>, one
  \<open>char\<close> per code point, for code points below 256 (the device prints ASCII). On
  that range the character classes of the regular expressions and \<open>str.lower\<close> are
  written out exactly as Python has them.
\<close>

definition is_digit :: "char \<Rightarrow> bool" where
  \<comment> \<open>\<open>\d\<close> of a \<open>str\<close> pattern: the decimal digits.\<close>
  "is_digit c = (48 \<le> (of_char c :: nat) \<and> (of_char c :: nat) \<le> 57)"

definition is_space :: "char \<Rightarrow> bool" where
  \<comment> \<open>\<open>\s\<close> of a \<open>str\<close> pattern: tab to carriage return, the four
      separators, the blank, NEL and the no-break space.\<close>
  "is_space c =
     (let n = (of_char c :: nat)
      in (9 \<le> n \<and> n \<le> 13) \<or> (28 \<le> n \<and> n \<le> 32) \<or> n = 133 \<or> n = 160)"



fun contains :: "string \<Rightarrow> string \<Rightarrow> bool" where
  \<comment> \<open>\<open>needle in hay\<close>\<close>
  "contains needle [] = (needle = [])"
| "contains needle (c # cs) = (prefix needle (c # cs) \<or> contains needle cs)"

section \<open>Regular expressions: \<open>re.search\<close>\<close>

text \<open>
  The patterns of the tool use literals, the classes \<open>\d\<close> and \<open>\s\<close> under
  \<open>*\<close> and \<open>+\<close>, one optional character and capturing groups that do not nest.
  A pattern is a list of items; the matcher is the backtracking matcher of \<open>re\<close>:
  a greedy item takes as much as it can and gives characters back one at a time when
  the rest of the pattern fails. A match is the list of the texts its items consumed.
\<close>

datatype cls = Digit | Space

fun in_cls :: "cls \<Rightarrow> char \<Rightarrow> bool" where
  "in_cls Digit c = is_digit c"
| "in_cls Space c = is_space c"

datatype item =
    Lit string      \<comment> \<open>a literal text\<close>
  | Star cls        \<comment> \<open>\<open>\d*\<close>, \<open>\s*\<close>\<close>
  | Plus cls        \<comment> \<open>\<open>\d+\<close>\<close>
  | Opt char        \<comment> \<open>\<open>\.?\<close>\<close>
  | GOpen           \<comment> \<open>\<open>(\<close> of a capturing group\<close>
  | GClose          \<comment> \<open>\<open>)\<close> of a capturing group\<close>

fun cons_seg :: "string \<Rightarrow> string list option \<Rightarrow> string list option" where
  "cons_seg w None = None"
| "cons_seg w (Some segs) = Some (w # segs)"

function match_here :: "item list \<Rightarrow> string \<Rightarrow> string list option"
  and greedy :: "cls \<Rightarrow> item list \<Rightarrow> string \<Rightarrow> string \<Rightarrow> string list option"
where
  "match_here [] s = Some []"
| "match_here (Lit w # p) s =
     (if prefix w s then cons_seg w (match_here p (drop (length w) s)) else None)"
| "match_here (Star k # p) s = greedy k p [] s"
| "match_here (Plus k # p) [] = None"
| "match_here (Plus k # p) (c # cs) = (if in_cls k c then greedy k p [c] cs else None)"
| "match_here (Opt x # p) [] = cons_seg [] (match_here p [])"
| "match_here (Opt x # p) (c # cs) =
     (if c = x
      then (case match_here p cs of
              Some segs \<Rightarrow> Some ([x] # segs)
            | None \<Rightarrow> cons_seg [] (match_here p (c # cs)))
      else cons_seg [] (match_here p (c # cs)))"
| "match_here (GOpen # p) s = cons_seg [] (match_here p s)"
| "match_here (GClose # p) s = cons_seg [] (match_here p s)"
| "greedy k p taken [] = cons_seg taken (match_here p [])"
| "greedy k p taken (c # cs) =
     (if in_cls k c
      then (case greedy k p (taken @ [c]) cs of
              Some segs \<Rightarrow> Some segs
            | None \<Rightarrow> cons_seg taken (match_here p (c # cs)))
      else cons_seg taken (match_here p (c # cs)))"
  by pat_completeness auto
termination
  by (relation "measure (\<lambda>x. case x of
          Inl (p, s) \<Rightarrow> 2 * (length p + length s)
        | Inr (k, p, taken, s) \<Rightarrow> 2 * (length p + length s) + 1)") auto

fun search :: "item list \<Rightarrow> string \<Rightarrow> string list option" where
  \<comment> \<open>\<open>re.search\<close>: the first start position, left to right, where the pattern matches.\<close>
  "search p [] = match_here p []"
| "search p (c # cs) =
     (case match_here p (c # cs) of Some segs \<Rightarrow> Some segs | None \<Rightarrow> search p cs)"

fun groups :: "item list \<Rightarrow> string list \<Rightarrow> string option \<Rightarrow> string list" where
  \<comment> \<open>\<open>match.group(1)\<close>, \<open>match.group(2)\<close>, ...: the text between each
      \<open>GOpen\<close> and its \<open>GClose\<close>.\<close>
  "groups (GOpen # p) (w # segs) cur = groups p segs (Some [])"
| "groups (GClose # p) (w # segs) (Some g) = g # groups p segs None"
| "groups (i # p) (w # segs) (Some g) = groups p segs (Some (g @ w))"
| "groups (i # p) (w # segs) None = groups p segs None"
| "groups p segs cur = []"

definition re_search :: "item list \<Rightarrow> string \<Rightarrow> string list option" where
  \<comment> \<open>The groups of the first match, or \<open>None\<close>.\<close>
  "re_search p line = map_option (\<lambda>segs. groups p segs None) (search p line)"

section \<open>Numbers from text: \<open>int\<close> and \<open>float\<close>\<close>

datatype error = ValueError | IndexError | KeyError | StatisticsError

definition digit_val :: "char \<Rightarrow> nat" where
  "digit_val c = (of_char c :: nat) - 48"

definition digits_val :: "string \<Rightarrow> nat" where
  "digits_val s = foldl (\<lambda>a c. 10 * a + digit_val c) 0 s"

definition py_int :: "string \<Rightarrow> error + int" where
  \<comment> \<open>\<open>int(text)\<close> on a decimal numeral; any other text is reported as the
      \<open>ValueError\<close> Python raises for a text that is no number.\<close>
  "py_int s = (if s \<noteq> [] \<and> list_all is_digit s then Inr (int (digits_val s)) else Inl ValueError)"

definition py_float :: "string \<Rightarrow> error + real" where
  \<comment> \<open>\<open>float(text)\<close> on digits with an optional point and fraction: the number the
      numeral denotes. Samples are the exact decimal values; binary rounding is left out.\<close>
  "py_float s =
     (let ip = takeWhile is_digit s; rest = dropWhile is_digit s
      in if ip = [] then Inl ValueError
         else if rest = [] then Inr (real (digits_val ip))
         else if hd rest = CHR ''.'' \<and> list_all is_digit (tl rest)
         then Inr (real (digits_val ip) + real (digits_val (tl rest)) / 10 ^ length (tl rest))
         else Inl ValueError)"

section \<open>The extractors\<close>

definition ips_pattern :: "item list" where
  \<comment> \<open>\<open>\((\d+\.?\d*)\s*MIPS\)\<close>\<close>
  "ips_pattern =
     [Lit ''('', GOpen, Plus Digit, Opt (CHR ''.''), Star Digit, GClose, Star Space, Lit ''MIPS)'']"

definition group :: "string list \<Rightarrow> nat \<Rightarrow> error + string" where
  \<comment> \<open>\<open>match.group(n)\<close>, \<open>n \<ge> 1\<close>\<close>
  "group gs n = (if 1 \<le> n \<and> n \<le> length gs then Inr (gs ! (n - 1)) else Inl IndexError)"

definition parse_ips_line :: "string \<Rightarrow> error + real option" where
  "parse_ips_line line =
     (case re_search ips_pattern line of
        Some gs \<Rightarrow>
          (case group gs 1 of
             Inl e \<Rightarrow> Inl e
           | Inr t \<Rightarrow> (case py_float t of Inl e \<Rightarrow> Inl e | Inr v \<Rightarrow> Inr (Some v)))
      | None \<Rightarrow> Inr None)"

record block =
  fetch_cycles :: "int option"
  fetch_pct :: "int option"
  exec_cycles :: "int option"
  exec_pct :: "int option"
  total_cycles :: "int option"
  psram_read_kbps :: "int option"
  psram_write_kbps :: "int option"
  psram_total_kbps :: "int option"
  bottleneck :: "string option"

text \<open>
  The dictionary \<open>metrics\<close> of \<open>parse_profiler_block\<close> has the nine keys the code
  assigns, so it is a record with one optional field per key: a key is in the dictionary
  exactly when its field is \<open>Some\<close>. \<open>metrics = {}\<close> is \<open>empty_block\<close>, and the
  test \<open>if metrics:\<close> is \<open>\<not> is_empty_block\<close>.
\<close>

definition empty_block :: block where
  "empty_block =
     \<lparr>fetch_cycles = None, fetch_pct = None, exec_cycles = None, exec_pct = None,
      total_cycles = None, psram_read_kbps = None, psram_write_kbps = None,
      psram_total_kbps = None, bottleneck = None\<rparr>"

definition is_empty_block :: "block \<Rightarrow> bool" where
  "is_empty_block m =
     (fetch_cycles m = None \<and> fetch_pct m = None \<and> exec_cycles m = None \<and>
      exec_pct m = None \<and> total_cycles m = None \<and> psram_read_kbps m = None \<and>
      psram_write_kbps m = None \<and> psram_total_kbps m = None \<and> bottleneck m = None)"

definition bind_err :: "error + 'a \<Rightarrow> ('a \<Rightarrow> error + 'b) \<Rightarrow> error + 'b" where
  \<comment> \<open>Sequencing: an exception raised by the first step leaves the function.\<close>
  "bind_err r f = (case r of Inl e \<Rightarrow> Inl e | Inr v \<Rightarrow> f v)"

definition int_group :: "string list \<Rightarrow> nat \<Rightarrow> error + int" where
  \<comment> \<open>\<open>int(match.group(n))\<close>\<close>
  "int_group gs n = bind_err (group gs n) py_int"

definition cycles_pattern :: "item list" where
  \<comment> \<open>\<open>Cycles/instr:\s*fetch=(\d+)\s*\((\d+)%\)\s*exec=(\d+)\s*\((\d+)%\)\s*total=(\d+)\<close>\<close>
  "cycles_pattern =
     [Lit ''Cycles/instr:'', Star Space, Lit ''fetch='', GOpen, Plus Digit, GClose,
      Star Space, Lit ''('', GOpen, Plus Digit, GClose, Lit ''%)'',
      Star Space, Lit ''exec='', GOpen, Plus Digit, GClose,
      Star Space, Lit ''('', GOpen, Plus Digit, GClose, Lit ''%)'',
      Star Space, Lit ''total='', GOpen, Plus Digit, GClose]"

definition bw_pattern :: "item list" where
  \<comment> \<open>\<open>PSRAM bandwidth:\s*read=(\d+)KB/s\s*write=(\d+)KB/s\s*total=(\d+)KB/s\<close>\<close>
  "bw_pattern =
     [Lit ''PSRAM bandwidth:'', Star Space, Lit ''read='', GOpen, Plus Digit, GClose, Lit ''KB/s'',
      Star Space, Lit ''write='', GOpen, Plus Digit, GClose, Lit ''KB/s'',
      Star Space, Lit ''total='', GOpen, Plus Digit, GClose, Lit ''KB/s'']"

definition set_cycles :: "string \<Rightarrow> block \<Rightarrow> error + block" where
  "set_cycles line metrics =
     (case re_search cycles_pattern line of
        None \<Rightarrow> Inr metrics
      | Some gs \<Rightarrow>
          bind_err (int_group gs 1) (\<lambda>a.
          bind_err (int_group gs 2) (\<lambda>b.
          bind_err (int_group gs 3) (\<lambda>c.
          bind_err (int_group gs 4) (\<lambda>d.
          bind_err (int_group gs 5) (\<lambda>e.
            Inr (metrics\<lparr>fetch_cycles := Some a, fetch_pct := Some b, exec_cycles := Some c,
                          exec_pct := Some d, total_cycles := Some e\<rparr>)))))))"

definition set_bw :: "string \<Rightarrow> block \<Rightarrow> error + block" where
  "set_bw line metrics =
     (case re_search bw_pattern line of
        None \<Rightarrow> Inr metrics
      | Some gs \<Rightarrow>
          bind_err (int_group gs 1) (\<lambda>a.
          bind_err (int_group gs 2) (\<lambda>b.
          bind_err (int_group gs 3) (\<lambda>c.
            Inr (metrics\<lparr>psram_read_kbps := Some a, psram_write_kbps := Some b,
                          psram_total_kbps := Some c\<rparr>)))))"

definition set_bottleneck :: "string \<Rightarrow> block \<Rightarrow> block" where
  "set_bottleneck line metrics =
     (if contains ''BOTTLENECK: CPU'' line then metrics\<lparr>bottleneck := Some ''CPU''\<rparr>
      else if contains ''BOTTLENECK: PSRAM'' line then metrics\<lparr>bottleneck := Some ''PSRAM''\<rparr>
      else metrics)"

definition block_line :: "string \<Rightarrow> block \<Rightarrow> error + block" where
  \<comment> \<open>The body of the loop of \<open>parse_profiler_block\<close>.\<close>
  "block_line line metrics =
     bind_err (set_cycles line metrics) (\<lambda>m1.
     bind_err (set_bw line m1) (\<lambda>m2.
       Inr (set_bottleneck line m2)))"

fun block_lines :: "string list \<Rightarrow> block \<Rightarrow> error + block" where
  "block_lines [] metrics = Inr metrics"
| "block_lines (line # rest) metrics = bind_err (block_line line metrics) (block_lines rest)"

definition parse_profiler_block :: "string list \<Rightarrow> error + block" where
  "parse_profiler_block lines = block_lines lines empty_block"

subsection \<open>The extraction pass\<close>

record extract_state =
  st_mips_values :: "real list"
  st_profiler_blocks :: "block list"
  st_current_block :: "string list"
  st_in_profiler_block :: bool

record metrics =
  mips_values :: "real list"
  profiler_blocks :: "block list"
  wifi_connected :: bool
  wifi_error :: bool

definition profiler_start :: string where
  "profiler_start = ''========== CPU PROFILER ==========''"

definition profiler_end :: string where
  "profiler_end = ''==================================''"


definition extract_line :: "string \<Rightarrow> extract_state \<Rightarrow> error + extract_state" where
  \<comment> \<open>The body of the loop of \<open>extract_metrics\<close>.\<close>
  "extract_line line st =
     bind_err (parse_ips_line line) (\<lambda>mips.
       let st1 = (case mips of
                    Some v \<Rightarrow> st\<lparr>st_mips_values := st_mips_values st @ [v]\<rparr>
                  | None \<Rightarrow> st)
       in if contains profiler_start line
          then Inr (st1\<lparr>st_in_profiler_block := True, st_current_block := []\<rparr>)
          else if contains profiler_end line \<and> st_in_profiler_block st1
          then bind_err (parse_profiler_block (st_current_block st1)) (\<lambda>m.
                 if \<not> is_empty_block m
                 then Inr (st1\<lparr>st_in_profiler_block := False,
                               st_profiler_blocks := st_profiler_blocks st1 @ [m]\<rparr>)
                 else Inr (st1\<lparr>st_in_profiler_block := False\<rparr>))
          else if st_in_profiler_block st1
          then Inr (st1\<lparr>st_current_block := st_current_block st1 @ [line]\<rparr>)
          else Inr st1)"

fun extract_lines :: "string list \<Rightarrow> extract_state \<Rightarrow> error + extract_state" where
  "extract_lines [] st = Inr st"
| "extract_lines (line # rest) st = bind_err (extract_line line st) (extract_lines rest)"


section \<open>The aggregator\<close>

record summary =
  wifi_status :: "string option"
  mips_avg :: "real option"
  mips_min :: "real option"
  mips_max :: "real option"
  mips_stdev :: "real option"
  mips_count :: "nat option"
  cycles_avg :: "real option"
  exec_pct_avg :: "real option"
  psram_bw_avg :: "real option"
  summary_bottleneck :: "string option"
  profiler_count :: "nat option"

text \<open>
  The Summary is the dictionary \<open>summary\<close>, again one optional field per key
  (\<open>summary_bottleneck\<close> is its key \<open>bottleneck\<close>). The functions of
  \<open>statistics\<close> and the built-ins raise on the inputs Python refuses.
\<close>

fun mean :: "real list \<Rightarrow> error + real" where
  "mean [] = Inl StatisticsError"
| "mean (x # xs) = Inr (sum_list (x # xs) / real (length (x # xs)))"

fun py_min :: "real list \<Rightarrow> error + real" where
  "py_min [] = Inl ValueError"
| "py_min (x # xs) = Inr (fold (\<lambda>y best. if y < best then y else best) xs x)"

fun py_max :: "real list \<Rightarrow> error + real" where
  "py_max [] = Inl ValueError"
| "py_max (x # xs) = Inr (fold (\<lambda>y best. if best < y then y else best) xs x)"

definition stdev :: "real list \<Rightarrow> error + real" where
  \<comment> \<open>The sample standard deviation; needs two data points.\<close>
  "stdev xs =
     (if length xs < 2 then Inl StatisticsError
      else let m = sum_list xs / real (length xs)
           in Inr (sqrt (sum_list (map (\<lambda>x. (x - m)\<^sup>2) xs) / real (length xs - 1))))"

fun py_max_key :: "('a \<Rightarrow> nat) \<Rightarrow> 'a list \<Rightarrow> error + 'a" where
  \<comment> \<open>\<open>max(iterable, key=f)\<close>: the first element, in iteration order, whose key is largest.\<close>
  "py_max_key f [] = Inl ValueError"
| "py_max_key f (x # xs) = Inr (fold (\<lambda>y best. if f best < f y then y else best) xs x)"

definition set_iter :: "(string \<Rightarrow> nat) \<Rightarrow> string list \<Rightarrow> string list" where
  \<comment> \<open>The iteration order of \<open>set(xs)\<close>. Python fixes no order for a set of strings: the
      order is a parameter, given as a rank \<open>prio\<close> of the elements (every order of the
      distinct elements arises from some rank).\<close>
  "set_iter prio xs = sort_key prio (remdups xs)"

fun lookup_all :: "(block \<Rightarrow> int option) \<Rightarrow> block list \<Rightarrow> error + real list" where
  \<comment> \<open>\<open>[b[key] for b in blocks]\<close>\<close>
  "lookup_all key [] = Inr []"
| "lookup_all key (b # bs) =
     (case key b of
        None \<Rightarrow> Inl KeyError
      | Some v \<Rightarrow> bind_err (lookup_all key bs) (\<lambda>vs. Inr (real_of_int v # vs)))"

definition summary_mips :: "real list \<Rightarrow> summary \<Rightarrow> error + summary" where
  \<comment> \<open>The part \<open># MIPS statistics\<close> of \<open>calculate_summary\<close>.\<close>
  "summary_mips vals s =
     (if vals \<noteq> [] then
        bind_err (mean vals) (\<lambda>avg.
        bind_err (py_min vals) (\<lambda>lo.
        bind_err (py_max vals) (\<lambda>hi.
        bind_err (if 1 < length vals
                  then bind_err (stdev vals) (\<lambda>sd.
                         Inr (s\<lparr>mips_avg := Some avg, mips_min := Some lo, mips_max := Some hi,
                                mips_stdev := Some sd\<rparr>))
                  else Inr (s\<lparr>mips_avg := Some avg, mips_min := Some lo, mips_max := Some hi\<rparr>))
          (\<lambda>s1. Inr (s1\<lparr>mips_count := Some (length vals)\<rparr>)))))
      else Inr s)"

definition summary_profiler :: "(string \<Rightarrow> nat) \<Rightarrow> block list \<Rightarrow> summary \<Rightarrow> error + summary" where
  \<comment> \<open>The part \<open># Profiler statistics\<close> of \<open>calculate_summary\<close>.\<close>
  "summary_profiler prio blocks s =
     (if blocks \<noteq> [] then
        bind_err (if list_all (\<lambda>b. total_cycles b \<noteq> None) blocks
                  then bind_err (lookup_all total_cycles blocks) (\<lambda>cycles.
                       bind_err (mean cycles) (\<lambda>avg. Inr (s\<lparr>cycles_avg := Some avg\<rparr>)))
                  else Inr s) (\<lambda>s1.
        bind_err (if list_all (\<lambda>b. exec_pct b \<noteq> None) blocks
                  then bind_err (lookup_all exec_pct blocks) (\<lambda>exec_pcts.
                       bind_err (mean exec_pcts) (\<lambda>avg. Inr (s1\<lparr>exec_pct_avg := Some avg\<rparr>)))
                  else Inr s1) (\<lambda>s2.
        bind_err (if list_all (\<lambda>b. psram_total_kbps b \<noteq> None) blocks
                  then bind_err (lookup_all psram_total_kbps blocks) (\<lambda>bw.
                       bind_err (mean bw) (\<lambda>avg. Inr (s2\<lparr>psram_bw_avg := Some avg\<rparr>)))
                  else Inr s2) (\<lambda>s3.
        let bottlenecks = map (\<lambda>b. case bottleneck b of Some t \<Rightarrow> t | None \<Rightarrow> ''Unknown'') blocks
        in bind_err (py_max_key (count_list bottlenecks) (set_iter prio bottlenecks)) (\<lambda>top.
             Inr (s3\<lparr>summary_bottleneck := Some top, profiler_count := Some (length blocks)\<rparr>)))))
      else Inr s)"

definition calculate_summary :: "(string \<Rightarrow> nat) \<Rightarrow> metrics \<Rightarrow> error + summary" where
  "calculate_summary prio m =
     bind_err
       (summary_mips (mips_values m)
          \<lparr>wifi_status =
              Some (if wifi_error m then ''ERROR''
                    else if wifi_connected m then ''Connected'' else ''Unknown''),
           mips_avg = None, mips_min = None, mips_max = None, mips_stdev = None,
           mips_count = None, cycles_avg = None, exec_pct_avg = None, psram_bw_avg = None,
           summary_bottleneck = None, profiler_count = None\<rparr>)
       (summary_profiler prio (profiler_blocks m))"

section \<open>The reporters and the entry point\<close>

record env =
  fmt2 :: "real \<Rightarrow> string"    \<comment> \<open>the format \<open>:.2f\<close>\<close>
  fmt0 :: "real \<Rightarrow> string"    \<comment> \<open>the format \<open>:.0f\<close>\<close>
  date_str :: string           \<comment> \<open>\<open>datetime.now().strftime('%Y-%m-%d %H:%M')\<close>\<close>

definition nl :: string where
  "nl = [char_of (10 :: nat)]"

definition header :: string where
  "header =
     ''# BasiliskII ESP32-P4 Performance Tracking'' @ nl @
     nl @
     ''This document tracks performance measurements over time.'' @ nl @
     nl @
     ''## Measurements'' @ nl @
     nl @
     ''| Date | Label | MIPS (avg) | MIPS (range) | Cycles/instr | Exec % | PSRAM BW | Bottleneck | WiFi |'' @ nl @
     ''|------|-------|------------|--------------|--------------|--------|----------|------------|------|'' @ nl"

definition ledger_row :: "env \<Rightarrow> summary \<Rightarrow> string \<Rightarrow> string" where
  \<comment> \<open>The part \<open># Format the new row\<close> of \<open>append_to_tracking_doc\<close>.\<close>
  "ledger_row e s label =
     (let mips_avg_s = (case mips_avg s of Some v \<Rightarrow> fmt2 e v | None \<Rightarrow> ''N/A'');
          mips_range_s =
            (case mips_min s of
               Some lo \<Rightarrow> fmt2 e lo @ ''-'' @ fmt2 e (case mips_max s of Some hi \<Rightarrow> hi | None \<Rightarrow> 0)
             | None \<Rightarrow> ''N/A'');
          cycles_s = (case cycles_avg s of Some v \<Rightarrow> fmt0 e v | None \<Rightarrow> ''N/A'');
          exec_pct_s = (case exec_pct_avg s of Some v \<Rightarrow> fmt0 e v @ ''%'' | None \<Rightarrow> ''N/A'');
          psram_bw_s = (case psram_bw_avg s of Some v \<Rightarrow> fmt0 e v @ '' KB/s'' | None \<Rightarrow> ''N/A'');
          bottleneck_s = (case summary_bottleneck s of Some t \<Rightarrow> t | None \<Rightarrow> ''N/A'');
          wifi_s = (case wifi_status s of Some t \<Rightarrow> t | None \<Rightarrow> ''Unknown'')
      in ''| '' @ date_str e @ '' | '' @ label @ '' | '' @ mips_avg_s @ '' | '' @ mips_range_s @
         '' | '' @ cycles_s @ '' | '' @ exec_pct_s @ '' | '' @ psram_bw_s @ '' | '' @
         bottleneck_s @ '' | '' @ wifi_s @ '' |'' @ nl)"

definition append_to_tracking_doc ::
  "env \<Rightarrow> summary \<Rightarrow> string \<Rightarrow> string \<Rightarrow> real option \<Rightarrow> string option \<Rightarrow> string option" where
  \<comment> \<open>The ledger file is its text, \<open>None\<close> while it does not exist; the directory is
      there and writable.\<close>
  "append_to_tracking_doc e s label timestamp duration doc =
     (let created = (case doc of None \<Rightarrow> header | Some text \<Rightarrow> text)
      in Some (created @ ledger_row e s label))"




section \<open>Notions the properties are stated with\<close>


definition avg_of :: "(block \<Rightarrow> int option) \<Rightarrow> block list \<Rightarrow> real option" where
  \<comment> \<open>The average of a field over the blocks, when every block has the field.\<close>
  "avg_of key blocks =
     (if list_all (\<lambda>b. key b \<noteq> None) blocks
      then Some (sum_list (map (\<lambda>b. real_of_int (the (key b))) blocks) / real (length blocks))
      else None)"

definition tags_of :: "block list \<Rightarrow> string list" where
  \<comment> \<open>The bottleneck tag of each block, \<open>Unknown\<close> for a block without one.\<close>
  "tags_of blocks = map (\<lambda>b. case bottleneck b of Some t \<Rightarrow> t | None \<Rightarrow> ''Unknown'') blocks"

subsection \<open>Sample inputs\<close>











fun last_some :: "('a \<Rightarrow> 'b option) \<Rightarrow> 'a list \<Rightarrow> 'b option" where
  \<comment> \<open>What the last element with a value gives.\<close>
  "last_some f [] = None"
| "last_some f (x # xs) = (case last_some f xs of Some v \<Rightarrow> Some v | None \<Rightarrow> f x)"

definition put ::
  "(int \<times> int \<times> int \<times> int \<times> int) option \<Rightarrow> (int \<times> int \<times> int) option \<Rightarrow> string option \<Rightarrow>
   block \<Rightarrow> block" where
  \<comment> \<open>The block with the fields of the readings that are there overwritten.\<close>
  "put c w t m =
     m\<lparr>fetch_cycles := (case c of Some (a, b, x, d, e) \<Rightarrow> Some a | None \<Rightarrow> fetch_cycles m),
       fetch_pct := (case c of Some (a, b, x, d, e) \<Rightarrow> Some b | None \<Rightarrow> fetch_pct m),
       exec_cycles := (case c of Some (a, b, x, d, e) \<Rightarrow> Some x | None \<Rightarrow> exec_cycles m),
       exec_pct := (case c of Some (a, b, x, d, e) \<Rightarrow> Some d | None \<Rightarrow> exec_pct m),
       total_cycles := (case c of Some (a, b, x, d, e) \<Rightarrow> Some e | None \<Rightarrow> total_cycles m),
       psram_read_kbps := (case w of Some (r, wr, tot) \<Rightarrow> Some r | None \<Rightarrow> psram_read_kbps m),
       psram_write_kbps := (case w of Some (r, wr, tot) \<Rightarrow> Some wr | None \<Rightarrow> psram_write_kbps m),
       psram_total_kbps := (case w of Some (r, wr, tot) \<Rightarrow> Some tot | None \<Rightarrow> psram_total_kbps m),
       bottleneck := (case t of Some tg \<Rightarrow> Some tg | None \<Rightarrow> bottleneck m)\<rparr>"


definition run :: "string list \<Rightarrow> extract_state \<Rightarrow> extract_state" where
  \<comment> \<open>The state of the extraction loop after some lines.\<close>
  "run ls st = projr (extract_lines ls st)"










definition env0 :: env where
  "env0 = \<lparr>fmt2 = (\<lambda>x. ''2.07''), fmt0 = (\<lambda>x. ''123''), date_str = ''2026-01-31 12:00''\<rparr>"

definition bare :: summary where
  "bare = \<lparr>wifi_status = Some ''Connected'', mips_avg = None, mips_min = None, mips_max = None,
            mips_stdev = None, mips_count = None, cycles_avg = None, exec_pct_avg = None,
            psram_bw_avg = None, summary_bottleneck = None, profiler_count = None\<rparr>"

definition metrics_none :: metrics where
  "metrics_none = \<lparr>mips_values = [], profiler_blocks = [], wifi_connected = True, wifi_error = False\<rparr>"





section \<open>The matcher: what a match is\<close>







lemma search_hit: "match_here p s = Some segs \<Longrightarrow> search p s = Some segs"
  by (cases s) auto



lemma search_None_split:
  "search p (pre @ rest) = None \<Longrightarrow> match_here p rest = None"
proof (induction pre)
  case Nil
  then show ?case by (cases "match_here p rest") (auto dest: search_hit)
next
  case (Cons c pre)
  then show ?case by (auto split: option.splits)
qed

section \<open>The aggregator in closed form\<close>

lemma bind_err_Inr [simp]: "bind_err (Inr v) f = f v"
  by (simp add: bind_err_def)

lemma bind_err_Inl [simp]: "bind_err (Inl e) f = Inl e"
  by (simp add: bind_err_def)

lemma py_min_eq: "xs \<noteq> [] \<Longrightarrow> py_min xs = Inr (Min (set xs))"
proof -
  have f: "(\<lambda>y best. if y < best then y else best) = (min :: real \<Rightarrow> real \<Rightarrow> real)"
    by (intro ext) (simp add: min_def)
  show "xs \<noteq> [] \<Longrightarrow> py_min xs = Inr (Min (set xs))"
    by (cases xs) (simp_all add: f Min.set_eq_fold [symmetric])
qed

lemma py_max_eq: "xs \<noteq> [] \<Longrightarrow> py_max xs = Inr (Max (set xs))"
proof -
  have f: "(\<lambda>y best. if best < y then y else best) = (max :: real \<Rightarrow> real \<Rightarrow> real)"
    by (intro ext) (simp add: max_def)
  show "xs \<noteq> [] \<Longrightarrow> py_max xs = Inr (Max (set xs))"
    by (cases xs) (simp_all add: f Max.set_eq_fold [symmetric])
qed

lemma mean_eq: "xs \<noteq> [] \<Longrightarrow> mean xs = Inr (sum_list xs / real (length xs))"
  by (cases xs) simp_all

lemma stdev_eq:
  "1 < length xs \<Longrightarrow> \<exists>sd. stdev xs = Inr sd"
  by (simp add: stdev_def Let_def)

lemma summary_mips_eq:
  "summary_mips vals s =
     Inr (if vals = [] then s
          else s\<lparr>mips_avg := Some (sum_list vals / real (length vals)),
                 mips_min := Some (Min (set vals)),
                 mips_max := Some (Max (set vals)),
                 mips_stdev := (if 1 < length vals
                    then (case stdev vals of Inr sd \<Rightarrow> Some sd | Inl e \<Rightarrow> None)
                    else mips_stdev s),
                 mips_count := Some (length vals)\<rparr>)"
proof (cases "vals = []")
  case True
  then show ?thesis by (simp add: summary_mips_def)
next
  case False
  show ?thesis
  proof (cases "1 < length vals")
    case True
    then obtain sd where "stdev vals = Inr sd" using stdev_eq by blast
    then show ?thesis using False True
      by (simp add: summary_mips_def mean_eq py_min_eq py_max_eq)
  next
    case False2: False
    then show ?thesis using False
      by (simp add: summary_mips_def mean_eq py_min_eq py_max_eq)
  qed
qed

lemma lookup_all_eq:
  "list_all (\<lambda>b. key b \<noteq> None) bs \<Longrightarrow>
   lookup_all key bs = Inr (map (\<lambda>b. real_of_int (the (key b))) bs)"
  by (induction bs) auto


lemma set_iter_set: "set (set_iter prio xs) = set xs"
  by (simp add: set_iter_def)


lemma set_iter_nonempty: "xs \<noteq> [] \<Longrightarrow> set_iter prio xs \<noteq> []"
  using set_iter_set[of prio xs] by (metis set_empty)

lemma fold_max_key:
  fixes f :: "'a \<Rightarrow> nat"
  shows "\<exists>pre post. x # xs = pre @ fold (\<lambda>y best. if f best < f y then y else best) xs x # post \<and>
      (\<forall>y\<in>set pre. f y < f (fold (\<lambda>y best. if f best < f y then y else best) xs x)) \<and>
      (\<forall>y\<in>set post. f y \<le> f (fold (\<lambda>y best. if f best < f y then y else best) xs x))"
  (is "\<exists>pre post. ?P xs pre post")
proof (induction xs rule: rev_induct)
  case Nil
  show ?case by (intro exI[of _ "[]"]) simp
next
  case (snoc z zs)
  let ?b = "fold (\<lambda>y best. if f best < f y then y else best) zs x"
  obtain pre post where pp: "x # zs = pre @ ?b # post" "\<forall>y\<in>set pre. f y < f ?b"
     "\<forall>y\<in>set post. f y \<le> f ?b"
    using snoc by blast
  show ?case
  proof (cases "f ?b < f z")
    case True
    have "x # zs @ [z] = (x # zs) @ z # []" by simp
    moreover have "\<forall>y\<in>set (x # zs). f y < f z"
    proof
      fix y assume "y \<in> set (x # zs)"
      then have "y \<in> set pre \<or> y = ?b \<or> y \<in> set post" unfolding pp(1) by auto
      then have "f y \<le> f ?b" using pp(2,3) by (auto simp: less_imp_le)
      then show "f y < f z" using True by simp
    qed
    ultimately show ?thesis using True
      by (intro exI[of _ "x # zs"] exI[of _ "[]"]) simp
  next
    case False
    then show ?thesis using pp
      by (intro exI[of _ pre] exI[of _ "post @ [z]"]) auto
  qed
qed

lemma py_max_key_first:
  "xs \<noteq> [] \<Longrightarrow>
   \<exists>winner pre post. py_max_key f xs = Inr winner \<and> xs = pre @ winner # post \<and>
      (\<forall>y\<in>set pre. f y < f winner) \<and> (\<forall>y\<in>set post. f y \<le> f winner)"
proof (cases xs)
  case Nil
  assume "xs \<noteq> []"
  then show ?thesis using Nil by simp
next
  case (Cons x ys)
  then show ?thesis using fold_max_key[of x ys f] by auto
qed



lemma avg_step:
  assumes "blocks \<noteq> []"
  shows "(if list_all (\<lambda>b. key b \<noteq> None) blocks
          then bind_err (lookup_all key blocks) (\<lambda>vs. bind_err (mean vs) (\<lambda>avg. Inr (upd avg)))
          else Inr s0) =
         Inr (case avg_of key blocks of Some avg \<Rightarrow> upd avg | None \<Rightarrow> s0)"
  using assms by (simp add: avg_of_def lookup_all_eq mean_eq)

lemma winner_exists:
  assumes "blocks \<noteq> []"
  shows "\<exists>winner. py_max_key (count_list (tags_of blocks)) (set_iter prio (tags_of blocks)) = Inr winner"
proof -
  have "tags_of blocks \<noteq> []" using assms by (simp add: tags_of_def)
  then have "set_iter prio (tags_of blocks) \<noteq> []" by (rule set_iter_nonempty)
  then show ?thesis using py_max_key_first by blast
qed

lemma summary_profiler_eq:
  assumes "blocks \<noteq> []"
    and "py_max_key (count_list (tags_of blocks)) (set_iter prio (tags_of blocks)) = Inr winner"
  shows "summary_profiler prio blocks s =
       Inr (s\<lparr>cycles_avg := (case avg_of total_cycles blocks of Some a \<Rightarrow> Some a | None \<Rightarrow> cycles_avg s),
              exec_pct_avg := (case avg_of exec_pct blocks of Some a \<Rightarrow> Some a | None \<Rightarrow> exec_pct_avg s),
              psram_bw_avg := (case avg_of psram_total_kbps blocks of Some a \<Rightarrow> Some a | None \<Rightarrow> psram_bw_avg s),
              summary_bottleneck := Some winner,
              profiler_count := Some (length blocks)\<rparr>)"
  unfolding summary_profiler_def avg_step [OF assms(1)] tags_of_def [symmetric]
  using assms
  by (simp add: Let_def split: option.splits)

lemma calculate_summary_fields:
  "\<exists>s. calculate_summary prio m = Inr s \<and>
     wifi_status s = Some (if wifi_error m then ''ERROR''
                           else if wifi_connected m then ''Connected'' else ''Unknown'') \<and>
     mips_avg s = (if mips_values m = [] then None
                   else Some (sum_list (mips_values m) / real (length (mips_values m)))) \<and>
     mips_min s = (if mips_values m = [] then None else Some (Min (set (mips_values m)))) \<and>
     mips_max s = (if mips_values m = [] then None else Some (Max (set (mips_values m)))) \<and>
     mips_stdev s = (if 1 < length (mips_values m)
                     then (case stdev (mips_values m) of Inr sd \<Rightarrow> Some sd | Inl e \<Rightarrow> None)
                     else None) \<and>
     mips_count s = (if mips_values m = [] then None else Some (length (mips_values m))) \<and>
     cycles_avg s = (if profiler_blocks m = [] then None else avg_of total_cycles (profiler_blocks m)) \<and>
     exec_pct_avg s = (if profiler_blocks m = [] then None else avg_of exec_pct (profiler_blocks m)) \<and>
     psram_bw_avg s = (if profiler_blocks m = [] then None
                       else avg_of psram_total_kbps (profiler_blocks m)) \<and>
     summary_bottleneck s =
       (if profiler_blocks m = [] then None
        else (case py_max_key (count_list (tags_of (profiler_blocks m)))
                     (set_iter prio (tags_of (profiler_blocks m))) of
                Inr winner \<Rightarrow> Some winner | Inl e \<Rightarrow> None)) \<and>
     profiler_count s = (if profiler_blocks m = [] then None else Some (length (profiler_blocks m)))"
proof (cases "profiler_blocks m = []")
  case True
  then show ?thesis
    by (simp add: calculate_summary_def summary_mips_eq summary_profiler_def)
next
  case False
  obtain winner where winner:
    "py_max_key (count_list (tags_of (profiler_blocks m))) (set_iter prio (tags_of (profiler_blocks m)))
       = Inr winner"
    using winner_exists [OF False] by blast
  show ?thesis using False winner
    by (simp add: calculate_summary_def summary_mips_eq summary_profiler_eq [OF False winner]
         split: option.splits)
qed

section \<open>The claims\<close>









section \<open>The extractors in closed form\<close>


lemma in_cls_Digit [simp]: "in_cls Digit = is_digit"
  by (rule ext) simp

lemma in_cls_Space [simp]: "in_cls Space = is_space"
  by (rule ext) simp




















lemma case_option_id [simp]: "(case x of None \<Rightarrow> None | Some v \<Rightarrow> Some v) = x"
  by (cases x) auto

lemma put_None [simp]: "put None None None m = m"
  by (simp add: put_def)






lemma last_some_mem: "last_some f xs = Some v \<Longrightarrow> \<exists>x\<in>set xs. f x = Some v"
  by (induction xs) (auto split: option.splits)







lemma run_Nil [simp]: "run [] st = st"
  by (simp add: run_def)







































lemma calculate_summary_shape:
  assumes "calculate_summary prio m = Inr s"
  shows "wifi_status s \<noteq> None" "mips_max s = None \<longleftrightarrow> mips_min s = None"
  using calculate_summary_fields [of prio m] assms by auto

text \<open>
  C8. The ledger reporter writes the header only when the file does not exist and never
  overwrites an existing file; each call appends one row. Two calls on a file that does not
  exist leave the header followed by the two rows. In a row, the cell of each statistic the
  Summary lacks reads \<open>N/A\<close>: the average, the range (keyed on the minimum), cycles, exec
  percentage, bandwidth and bottleneck; in a Summary of the aggregator the maximum is
  lacking only with the minimum, and the status is always there.
\<close>

theorem ledger_bootstrap:
  "append_to_tracking_doc e s l t d None = Some (header @ ledger_row e s l) \<and>
   append_to_tracking_doc e s l t d (Some text) = Some (text @ ledger_row e s l) \<and>
   append_to_tracking_doc e2 s2 l2 t2 d2 (append_to_tracking_doc e s l t d None) =
     Some (header @ ledger_row e s l @ ledger_row e2 s2 l2) \<and>
   (\<exists>c1 c2 c3 c4 c5 c6 c7.
      ledger_row e s l =
        ''| '' @ date_str e @ '' | '' @ l @ '' | '' @ c1 @ '' | '' @ c2 @ '' | '' @ c3 @
        '' | '' @ c4 @ '' | '' @ c5 @ '' | '' @ c6 @ '' | '' @ c7 @ '' |'' @ nl \<and>
      (mips_avg s = None \<longrightarrow> c1 = ''N/A'') \<and>
      (mips_min s = None \<longrightarrow> c2 = ''N/A'') \<and>
      (cycles_avg s = None \<longrightarrow> c3 = ''N/A'') \<and>
      (exec_pct_avg s = None \<longrightarrow> c4 = ''N/A'') \<and>
      (psram_bw_avg s = None \<longrightarrow> c5 = ''N/A'') \<and>
      (summary_bottleneck s = None \<longrightarrow> c6 = ''N/A'') \<and>
      (\<forall>prio m. calculate_summary prio m = Inr s \<longrightarrow>
         (mips_max s = None \<longrightarrow> c2 = ''N/A'') \<and> wifi_status s = Some c7))"
proof -
  have rows: "\<exists>c1 c2 c3 c4 c5 c6 c7.
      ledger_row e s l =
        ''| '' @ date_str e @ '' | '' @ l @ '' | '' @ c1 @ '' | '' @ c2 @ '' | '' @ c3 @
        '' | '' @ c4 @ '' | '' @ c5 @ '' | '' @ c6 @ '' | '' @ c7 @ '' |'' @ nl \<and>
      (mips_avg s = None \<longrightarrow> c1 = ''N/A'') \<and>
      (mips_min s = None \<longrightarrow> c2 = ''N/A'') \<and>
      (cycles_avg s = None \<longrightarrow> c3 = ''N/A'') \<and>
      (exec_pct_avg s = None \<longrightarrow> c4 = ''N/A'') \<and>
      (psram_bw_avg s = None \<longrightarrow> c5 = ''N/A'') \<and>
      (summary_bottleneck s = None \<longrightarrow> c6 = ''N/A'') \<and>
      (\<forall>prio m. calculate_summary prio m = Inr s \<longrightarrow>
         (mips_max s = None \<longrightarrow> c2 = ''N/A'') \<and> wifi_status s = Some c7)"
  proof -
    define c1 where "c1 = (case mips_avg s of Some v \<Rightarrow> fmt2 e v | None \<Rightarrow> ''N/A'')"
    define c2 where "c2 = (case mips_min s of
               Some lo \<Rightarrow> fmt2 e lo @ ''-'' @ fmt2 e (case mips_max s of Some hi \<Rightarrow> hi | None \<Rightarrow> 0)
             | None \<Rightarrow> ''N/A'')"
    define c3 where "c3 = (case cycles_avg s of Some v \<Rightarrow> fmt0 e v | None \<Rightarrow> ''N/A'')"
    define c4 where "c4 = (case exec_pct_avg s of Some v \<Rightarrow> fmt0 e v @ ''%'' | None \<Rightarrow> ''N/A'')"
    define c5 where "c5 = (case psram_bw_avg s of Some v \<Rightarrow> fmt0 e v @ '' KB/s'' | None \<Rightarrow> ''N/A'')"
    define c6 where "c6 = (case summary_bottleneck s of Some t \<Rightarrow> t | None \<Rightarrow> ''N/A'')"
    define c7 where "c7 = (case wifi_status s of Some t \<Rightarrow> t | None \<Rightarrow> ''Unknown'')"
    have r: "ledger_row e s l =
        ''| '' @ date_str e @ '' | '' @ l @ '' | '' @ c1 @ '' | '' @ c2 @ '' | '' @ c3 @
        '' | '' @ c4 @ '' | '' @ c5 @ '' | '' @ c6 @ '' | '' @ c7 @ '' |'' @ nl"
      by (simp add: ledger_row_def Let_def c1_def c2_def c3_def c4_def c5_def c6_def c7_def)
    have n: "mips_avg s = None \<longrightarrow> c1 = ''N/A''" "mips_min s = None \<longrightarrow> c2 = ''N/A''"
      "cycles_avg s = None \<longrightarrow> c3 = ''N/A''" "exec_pct_avg s = None \<longrightarrow> c4 = ''N/A''"
      "psram_bw_avg s = None \<longrightarrow> c5 = ''N/A''" "summary_bottleneck s = None \<longrightarrow> c6 = ''N/A''"
      by (simp_all add: c1_def c2_def c3_def c4_def c5_def c6_def)
    have a: "\<forall>prio m. calculate_summary prio m = Inr s \<longrightarrow>
         (mips_max s = None \<longrightarrow> c2 = ''N/A'') \<and> wifi_status s = Some c7"
    proof (intro allI impI)
      fix prio m assume cs: "calculate_summary prio m = Inr s"
      have "mips_max s = None \<longrightarrow> c2 = ''N/A''"
        using calculate_summary_shape(2) [OF cs] n(2) by simp
      moreover have "wifi_status s = Some c7"
        using calculate_summary_shape(1) [OF cs] by (auto simp: c7_def)
      ultimately show "(mips_max s = None \<longrightarrow> c2 = ''N/A'') \<and> wifi_status s = Some c7" by simp
    qed
    show ?thesis
      apply (rule exI [of _ c1], rule exI [of _ c2], rule exI [of _ c3], rule exI [of _ c4])
      apply (rule exI [of _ c5], rule exI [of _ c6], rule exI [of _ c7])
      apply (intro conjI)
      apply (rule r)
      apply (rule n(1))
      apply (rule n(2))
      apply (rule n(3))
      apply (rule n(4))
      apply (rule n(5))
      apply (rule n(6))
      apply (rule a)
      done
  qed
  show ?thesis
    using rows by (simp add: append_to_tracking_doc_def)
qed

text \<open>Two runs with no sample and no block, on a ledger that does not exist yet.\<close>

lemma bare_summary: "calculate_summary (\<lambda>t. 0) metrics_none = Inr bare"
  by (simp add: calculate_summary_def summary_mips_def summary_profiler_def metrics_none_def bare_def)

lemma bare_row:
  assumes "\<exists>c1 c2 c3 c4 c5 c6 c7.
      ledger_row env0 bare l =
        ''| '' @ date_str env0 @ '' | '' @ l @ '' | '' @ c1 @ '' | '' @ c2 @ '' | '' @ c3 @
        '' | '' @ c4 @ '' | '' @ c5 @ '' | '' @ c6 @ '' | '' @ c7 @ '' |'' @ nl \<and>
      (mips_avg bare = None \<longrightarrow> c1 = ''N/A'') \<and>
      (mips_min bare = None \<longrightarrow> c2 = ''N/A'') \<and>
      (cycles_avg bare = None \<longrightarrow> c3 = ''N/A'') \<and>
      (exec_pct_avg bare = None \<longrightarrow> c4 = ''N/A'') \<and>
      (psram_bw_avg bare = None \<longrightarrow> c5 = ''N/A'') \<and>
      (summary_bottleneck bare = None \<longrightarrow> c6 = ''N/A'') \<and>
      (\<forall>prio m. calculate_summary prio m = Inr bare \<longrightarrow>
         (mips_max bare = None \<longrightarrow> c2 = ''N/A'') \<and> wifi_status bare = Some c7)"
  shows "ledger_row env0 bare l =
           ''| 2026-01-31 12:00 | '' @ l @ '' | N/A | N/A | N/A | N/A | N/A | N/A | Connected |'' @ nl"
proof -
  from assms show ?thesis
  proof (elim exE conjE)
    fix c1 c2 c3 c4 c5 c6 c7
    assume r: "ledger_row env0 bare l =
        ''| '' @ date_str env0 @ '' | '' @ l @ '' | '' @ c1 @ '' | '' @ c2 @ '' | '' @ c3 @
        '' | '' @ c4 @ '' | '' @ c5 @ '' | '' @ c6 @ '' | '' @ c7 @ '' |'' @ nl"
      and n: "mips_avg bare = None \<longrightarrow> c1 = ''N/A''" "mips_min bare = None \<longrightarrow> c2 = ''N/A''"
        "cycles_avg bare = None \<longrightarrow> c3 = ''N/A''" "exec_pct_avg bare = None \<longrightarrow> c4 = ''N/A''"
        "psram_bw_avg bare = None \<longrightarrow> c5 = ''N/A''" "summary_bottleneck bare = None \<longrightarrow> c6 = ''N/A''"
      and a: "\<forall>prio m. calculate_summary prio m = Inr bare \<longrightarrow>
         (mips_max bare = None \<longrightarrow> c2 = ''N/A'') \<and> wifi_status bare = Some c7"
    have "wifi_status bare = Some c7" using a [rule_format, OF bare_summary] by simp
    then have c7: "c7 = ''Connected''" by (simp add: bare_def)
    have cs: "c1 = ''N/A''" "c2 = ''N/A''" "c3 = ''N/A''" "c4 = ''N/A''" "c5 = ''N/A''" "c6 = ''N/A''"
      using n by (simp_all add: bare_def)
    show ?thesis unfolding r cs c7 by (simp add: env0_def)
  qed
qed

theorem ledger_bootstrap_witness:
  "append_to_tracking_doc env0 bare ''capture'' ''20260131_120000'' None
     (append_to_tracking_doc env0 bare ''baseline'' ''20260131_115900'' None None) =
   Some (header @
     ''| 2026-01-31 12:00 | baseline | N/A | N/A | N/A | N/A | N/A | N/A | Connected |'' @ nl @
     ''| 2026-01-31 12:00 | capture | N/A | N/A | N/A | N/A | N/A | N/A | Connected |'' @ nl)"
proof -
  note T1 = ledger_bootstrap [of env0 bare "''baseline''" "''20260131_115900''" None "[]"
               env0 bare "''capture''" "''20260131_120000''" None]
  note T2 = ledger_bootstrap [of env0 bare "''capture''" "''20260131_120000''" None "[]"
               env0 bare "''capture''" "''20260131_120000''" None]
  have r1: "ledger_row env0 bare ''baseline'' =
      ''| 2026-01-31 12:00 | baseline | N/A | N/A | N/A | N/A | N/A | N/A | Connected |'' @ nl"
    using bare_row [OF T1 [THEN conjunct2, THEN conjunct2, THEN conjunct2]] by simp
  have r2: "ledger_row env0 bare ''capture'' =
      ''| 2026-01-31 12:00 | capture | N/A | N/A | N/A | N/A | N/A | N/A | Connected |'' @ nl"
    using bare_row [OF T2 [THEN conjunct2, THEN conjunct2, THEN conjunct2]] by simp
  have "append_to_tracking_doc env0 bare ''capture'' ''20260131_120000'' None
     (append_to_tracking_doc env0 bare ''baseline'' ''20260131_115900'' None None) =
     Some (header @ ledger_row env0 bare ''baseline'' @ ledger_row env0 bare ''capture'')"
    by (rule T1 [THEN conjunct2, THEN conjunct2, THEN conjunct1])
  then show ?thesis unfolding r1 r2 by simp
qed


















end
